theory Spec2Isabelle
  imports Complex_Main
begin

section \<open>Python values, exceptions and the outside world\<close>

text \<open>
  The program is \<^verbatim>\<open>app.py\<close>: a chat page that forwards a prompt to a remote model,
  appends the exchange to \<^verbatim>\<open>conversations.json\<close> and shows statistics of that file.
  Its collaborators (the generation service, the file system, the clock, the logging
  module) are modelled by what they hand to the program: a value or an exception.

  A Python \<^verbatim>\<open>str\<close> is a \<open>string\<close>; the program never inspects the characters
  of the texts it passes on. An exception is an instance of a class derived from
  \<^verbatim>\<open>Exception\<close>, given by the name of its class and by \<^verbatim>\<open>str(e)\<close>; a function that
  can raise returns \<open>py_exn + 'a\<close>, with \<open>Inl\<close> for the exception that leaves it.
  These are the exceptions a failing service, file or JSON text raises, and the ones
  \<^verbatim>\<open>except Exception\<close> catches. The interrupts outside that class
  (\<^verbatim>\<open>KeyboardInterrupt\<close>, \<^verbatim>\<open>SystemExit\<close>) are raised by none of the operations below
  and have no place in the model.
\<close>

datatype py_exn = PyException (exn_class: string) (exn_str: string)

type_synonym 'a result = "py_exn + 'a"

text \<open>
  What \<^verbatim>\<open>json.load\<close> returns: \<^verbatim>\<open>None\<close>, a bool, an int, a float, a str, a list or a
  dict with string keys (its items in insertion order, the keys distinct).
\<close>

datatype json =
    JNull
  | JBool bool
  | JInt int
  | JFloat real
  | JStr string
  | JList "json list"
  | JDict "(string \<times> json) list"

fun py_type_name :: "json \<Rightarrow> string" where
  "py_type_name JNull = ''NoneType''"
| "py_type_name (JBool b) = ''bool''"
| "py_type_name (JInt i) = ''int''"
| "py_type_name (JFloat r) = ''float''"
| "py_type_name (JStr s) = ''str''"
| "py_type_name (JList xs) = ''list''"
| "py_type_name (JDict kvs) = ''dict''"

definition quoted :: "string \<Rightarrow> string" where
  "quoted s = CHR 0x27 # s @ [CHR 0x27]"

definition AttributeError :: "json \<Rightarrow> string \<Rightarrow> py_exn" where
  "AttributeError obj attr =
     PyException ''AttributeError''
       (quoted (py_type_name obj) @ '' object has no attribute '' @ quoted attr)"

definition TypeError :: "string \<Rightarrow> py_exn" where
  "TypeError msg = PyException ''TypeError'' msg"

definition KeyError :: "string \<Rightarrow> py_exn" where
  "KeyError key = PyException ''KeyError'' (quoted key)"

text \<open>
  The file \<^verbatim>\<open>conversations.json\<close> as the program meets it: absent; present but
  \<^verbatim>\<open>open(..., 'r')\<close> raises; present and opened but \<^verbatim>\<open>json.load\<close> raises (not JSON, not
  text, a read error); or a JSON document, given by the value \<^verbatim>\<open>json.load\<close> returns.

  An attempt to rewrite the file has three outcomes: it succeeds; \<^verbatim>\<open>open(..., 'w')\<close>
  raises and the file is as before; or \<^verbatim>\<open>open(..., 'w')\<close> succeeds, which empties the
  file, and \<^verbatim>\<open>json.dump\<close> raises before the text is complete, which leaves a prefix of
  a document behind (the second exception is the one \<^verbatim>\<open>json.load\<close> raises on it).
  A value that was dumped is the value a later \<^verbatim>\<open>json.load\<close> returns: the values
  written here are strings and what an earlier load returned.
\<close>

datatype file_state =
    Absent
  | Unreadable py_exn
  | Unparsable py_exn
  | Document json

datatype write_outcome =
    WriteOk
  | OpenFails py_exn
  | DumpFails py_exn py_exn

datatype level = INFO | ERROR

record datetime =
  year :: nat
  month :: nat
  day :: nat
  hour :: nat
  minute :: nat
  second :: nat
  microsecond :: nat

record world =
  now :: datetime
  store :: file_state
  write_env :: write_outcome
  chat_log :: "(level \<times> string) list"

text \<open>\<^verbatim>\<open>strftime('%Y-%m-%d %H:%M:%S')\<close>: zero-padded fields, the microseconds dropped.\<close>

definition digit :: "nat \<Rightarrow> char" where
  "digit n = ''0123456789'' ! (n mod 10)"

definition dec2 :: "nat \<Rightarrow> string" where
  "dec2 n = [digit (n div 10), digit n]"

definition dec4 :: "nat \<Rightarrow> string" where
  "dec4 n = [digit (n div 1000), digit (n div 100), digit (n div 10), digit n]"

definition strftime :: "datetime \<Rightarrow> string" where
  "strftime dt =
     dec4 (year dt) @ ''-'' @ dec2 (month dt) @ ''-'' @ dec2 (day dt) @ '' '' @
     dec2 (hour dt) @ '':'' @ dec2 (minute dt) @ '':'' @ dec2 (second dt)"

text \<open>
  \<^verbatim>\<open>logging.info\<close> and \<^verbatim>\<open>logging.error\<close> add one record to \<^verbatim>\<open>chat_logs.log\<close> (the level
  configured is INFO, so both pass); the handler writes it as a line that starts with
  the time. The logging module reports its own failures on stderr and does not raise.
\<close>

definition logging_info :: "string \<Rightarrow> world \<Rightarrow> world" where
  "logging_info msg w = w\<lparr>chat_log := chat_log w @ [(INFO, msg)]\<rparr>"

definition logging_error :: "string \<Rightarrow> world \<Rightarrow> world" where
  "logging_error msg w = w\<lparr>chat_log := chat_log w @ [(ERROR, msg)]\<rparr>"

section \<open>The conversation store: \<^verbatim>\<open>save_conversation\<close>\<close>

definition path_exists :: "world \<Rightarrow> bool" where
  "path_exists w = (store w \<noteq> Absent)"

text \<open>\<^verbatim>\<open>with open('conversations.json', 'r') as f: json.load(f)\<close>\<close>

definition json_load :: "world \<Rightarrow> json result" where
  "json_load w =
     (case store w of
        Absent \<Rightarrow>
          Inl (PyException ''FileNotFoundError''
                 (''[Errno 2] No such file or directory: '' @ quoted ''conversations.json''))
      | Unreadable e \<Rightarrow> Inl e
      | Unparsable e \<Rightarrow> Inl e
      | Document j \<Rightarrow> Inr j)"

text \<open>\<^verbatim>\<open>conversations.append(conversation)\<close>: only a list has the method.\<close>

definition list_append :: "json \<Rightarrow> json \<Rightarrow> json result" where
  "list_append conversations conversation =
     (case conversations of
        JList xs \<Rightarrow> Inr (JList (xs @ [conversation]))
      | other \<Rightarrow> Inl (AttributeError other ''append''))"

text \<open>\<^verbatim>\<open>with open('conversations.json', 'w') as f: json.dump(conversations, f, indent=2)\<close>\<close>

definition json_dump :: "json \<Rightarrow> world \<Rightarrow> unit result \<times> world" where
  "json_dump conversations w =
     (case write_env w of
        WriteOk \<Rightarrow> (Inr (), w\<lparr>store := Document conversations\<rparr>)
      | OpenFails e \<Rightarrow> (Inl e, w)
      | DumpFails e e' \<Rightarrow> (Inl e, w\<lparr>store := Unparsable e'\<rparr>))"

text \<open>The dict built before the \<^verbatim>\<open>try\<close>.\<close>

definition new_conversation :: "string \<Rightarrow> string \<Rightarrow> string \<Rightarrow> world \<Rightarrow> json" where
  "new_conversation question response model_name w =
     JDict [(''timestamp'', JStr (strftime (now w))),
            (''model'', JStr model_name),
            (''question'', JStr question),
            (''response'', JStr response)]"

text \<open>The body of the \<^verbatim>\<open>try\<close>: load or start empty, append, rewrite, log three lines.\<close>

definition save_conversation_try ::
  "string \<Rightarrow> string \<Rightarrow> string \<Rightarrow> json \<Rightarrow> world \<Rightarrow> unit result \<times> world" where
  "save_conversation_try question response model_name conversation w =
     (case (if path_exists w then json_load w else Inr (JList [])) of
        Inl e \<Rightarrow> (Inl e, w)
      | Inr conversations \<Rightarrow>
          (case list_append conversations conversation of
             Inl e \<Rightarrow> (Inl e, w)
           | Inr conversations' \<Rightarrow>
               (case json_dump conversations' w of
                  (Inl e, w') \<Rightarrow> (Inl e, w')
                | (Inr u, w') \<Rightarrow>
                    (Inr (),
                     logging_info (''R: '' @ response)
                       (logging_info (''Q: '' @ question)
                          (logging_info (''Model: '' @ model_name) w'))))))"

definition save_conversation ::
  "string \<Rightarrow> string \<Rightarrow> string \<Rightarrow> world \<Rightarrow> unit result \<times> world" where
  "save_conversation question response model_name w =
     (case save_conversation_try question response model_name
             (new_conversation question response model_name w) w of
        (Inr u, w') \<Rightarrow> (Inr (), w')
      | (Inl e, w') \<Rightarrow>
          (Inr (), logging_error (''Error saving conversation: '' @ exn_str e) w'))"

text \<open>The \<^verbatim>\<open>try\<close> block of a call ran to its end: the call appended its turn.\<close>

definition append_succeeds :: "string \<Rightarrow> string \<Rightarrow> string \<Rightarrow> world \<Rightarrow> bool" where
  "append_succeeds question response model_name w =
     (fst (save_conversation_try question response model_name
             (new_conversation question response model_name w) w) = Inr ())"

section \<open>The gateway: \<^verbatim>\<open>get_gemini_response\<close>\<close>

text \<open>
  The service is what \<^verbatim>\<open>genai.GenerativeModel(model_name).generate_content(question,
  ...).text\<close> yields for a question, a backend identifier and a temperature: the text, or
  the exception one of the three steps raises.
\<close>

type_synonym service = "string \<Rightarrow> string \<Rightarrow> real \<Rightarrow> string result"

definition get_gemini_response ::
  "service \<Rightarrow> string \<Rightarrow> string \<Rightarrow> real \<Rightarrow> world \<Rightarrow> string result \<times> world" where
  "get_gemini_response svc question model_name temperature w =
     (case svc question model_name temperature of
        Inr text \<Rightarrow> (Inr text, w)
      | Inl e \<Rightarrow>
          (let error_msg = ''An error occurred with '' @ model_name @ '': '' @ exn_str e
           in (Inr error_msg, logging_error error_msg w)))"

section \<open>The sidebar statistics\<close>

text \<open>\<^verbatim>\<open>len(conversations)\<close>\<close>

definition py_len :: "json \<Rightarrow> nat result" where
  "py_len obj =
     (case obj of
        JList xs \<Rightarrow> Inr (length xs)
      | JDict kvs \<Rightarrow> Inr (length kvs)
      | JStr s \<Rightarrow> Inr (length s)
      | other \<Rightarrow>
          Inl (TypeError (''object of type '' @ quoted (py_type_name other) @ '' has no len()'')))"

text \<open>
  \<^verbatim>\<open>for conv in conversations\<close>: the items of a list, the keys of a dict, the characters
  of a str.
\<close>

definition py_iter :: "json \<Rightarrow> json list result" where
  "py_iter obj =
     (case obj of
        JList xs \<Rightarrow> Inr xs
      | JDict kvs \<Rightarrow> Inr (map (\<lambda>kv. JStr (fst kv)) kvs)
      | JStr s \<Rightarrow> Inr (map (\<lambda>c. JStr [c]) s)
      | other \<Rightarrow>
          Inl (TypeError (quoted (py_type_name other) @ '' object is not iterable'')))"

text \<open>\<^verbatim>\<open>conv.get('model', 'Unknown')\<close>: only a dict has the method.\<close>

definition conv_get_model :: "json \<Rightarrow> json result" where
  "conv_get_model conv =
     (case conv of
        JDict kvs \<Rightarrow>
          Inr (case map_of kvs ''model'' of Some v \<Rightarrow> v | None \<Rightarrow> JStr ''Unknown'')
      | other \<Rightarrow> Inl (AttributeError other ''get''))"

text \<open>
  The dict \<^verbatim>\<open>model_counts\<close>, its items in insertion order. A key must be hashable (a
  list or a dict is not), and two keys are the same key when Python's \<^verbatim>\<open>==\<close> says so:
  bools, ints and floats compare by their numeric value, everything else with its own
  kind only.
\<close>

fun hashable :: "json \<Rightarrow> bool" where
  "hashable (JList xs) = False"
| "hashable (JDict kvs) = False"
| "hashable v = True"

fun num_value :: "json \<Rightarrow> real option" where
  "num_value (JBool b) = Some (if b then 1 else 0)"
| "num_value (JInt i) = Some (real_of_int i)"
| "num_value (JFloat r) = Some r"
| "num_value v = None"

definition py_eq :: "json \<Rightarrow> json \<Rightarrow> bool" where
  "py_eq a b =
     (case (num_value a, num_value b) of
        (Some x, Some y) \<Rightarrow> x = y
      | (None, None) \<Rightarrow> a = b
      | other \<Rightarrow> False)"

fun dict_get :: "(json \<times> nat) list \<Rightarrow> json \<Rightarrow> nat \<Rightarrow> nat" where
  "dict_get [] k d = d"
| "dict_get ((k', v) # kvs) k d = (if py_eq k' k then v else dict_get kvs k d)"

fun dict_set :: "(json \<times> nat) list \<Rightarrow> json \<Rightarrow> nat \<Rightarrow> (json \<times> nat) list" where
  "dict_set [] k v = [(k, v)]"
| "dict_set ((k', v') # kvs) k v =
     (if py_eq k' k then (k', v) # kvs else (k', v') # dict_set kvs k v)"

text \<open>The loop over the conversations, from the counts so far.\<close>

fun count_models :: "json list \<Rightarrow> (json \<times> nat) list \<Rightarrow> (json \<times> nat) list result" where
  "count_models [] counts = Inr counts"
| "count_models (conv # rest) counts =
     (case conv_get_model conv of
        Inl e \<Rightarrow> Inl e
      | Inr model_name \<Rightarrow>
          if hashable model_name
          then count_models rest (dict_set counts model_name (dict_get counts model_name 0 + 1))
          else Inl (TypeError (''unhashable type: '' @ quoted (py_type_name model_name))))"

definition model_counts :: "json \<Rightarrow> (json \<times> nat) list result" where
  "model_counts conversations =
     (case py_iter conversations of
        Inl e \<Rightarrow> Inl e
      | Inr convs \<Rightarrow> count_models convs [])"

text \<open>
  The statistics block of the sidebar: nothing when the file is absent, otherwise the
  total and the counts per model. It runs at the top level of the script, in no
  \<^verbatim>\<open>try\<close>: an exception raised here leaves the script.
\<close>

definition sidebar_statistics :: "world \<Rightarrow> (nat \<times> (json \<times> nat) list) option result" where
  "sidebar_statistics w =
     (if path_exists w then
        (case json_load w of
           Inl e \<Rightarrow> Inl e
         | Inr conversations \<Rightarrow>
             (case py_len conversations of
                Inl e \<Rightarrow> Inl e
              | Inr n \<Rightarrow>
                  (case model_counts conversations of
                     Inl e \<Rightarrow> Inl e
                   | Inr counts \<Rightarrow> Inr (Some (n, counts)))))
      else Inr None)"

text \<open>The first half of the block alone: the file is loaded and its length taken.\<close>

definition conversation_count :: "world \<Rightarrow> nat option result" where
  "conversation_count w =
     (if path_exists w then
        (case json_load w of
           Inl e \<Rightarrow> Inl e
         | Inr conversations \<Rightarrow>
             (case py_len conversations of Inl e \<Rightarrow> Inl e | Inr n \<Rightarrow> Inr (Some n)))
      else Inr None)"

section \<open>Model configurations\<close>

record model_config =
  model_name :: string
  description :: string
  max_temperature :: real
  default_temperature :: real

definition MODELS :: "(string \<times> model_config) list" where
  "MODELS =
    [(''Gemini 1.5 Pro'',
        \<lparr>model_name = ''gemini-1.5-pro'',
         description = ''Most capable model for complex tasks'',
         max_temperature = 1.0, default_temperature = 0.7\<rparr>),
     (''Gemini 1.5 Flash'',
        \<lparr>model_name = ''gemini-1.5-flash'',
         description = ''Optimized for speed and efficiency'',
         max_temperature = 1.0, default_temperature = 0.7\<rparr>),
     (''Gemini 1.5 Flash 8B'',
        \<lparr>model_name = ''gemini-1.5-flash-8b'',
         description = ''Lighter and faster variant'',
         max_temperature = 1.0, default_temperature = 0.7\<rparr>),
     (''LearnLM 1.5 Pro (Experimental)'',
        \<lparr>model_name = ''learnlm-1.5-pro-experimental'',
         description = ''Experimental model with enhanced learning capabilities'',
         max_temperature = 1.0, default_temperature = 0.7\<rparr>)]"

section \<open>The chat handler and the script\<close>

datatype role = user | assistant

record message =
  role :: role
  content :: string
  model :: "string option"

text \<open>
  One pass through the chat input block. A prompt that is absent or empty does nothing.
  Otherwise: the user message joins the session, the gateway is called with the backend
  identifier of the selected model, the reply joins the session tagged with the label,
  and the exchange goes to \<^verbatim>\<open>save_conversation\<close>.
\<close>

definition chat_handler ::
  "service \<Rightarrow> string \<Rightarrow> real \<Rightarrow> string option \<Rightarrow> message list \<times> world \<Rightarrow>
   unit result \<times> (message list \<times> world)" where
  "chat_handler svc selected_model temperature prompt_input st =
     (case st of (messages, w) \<Rightarrow>
       (case prompt_input of
          None \<Rightarrow> (Inr (), (messages, w))
        | Some prompt \<Rightarrow>
            if prompt = [] then (Inr (), (messages, w))
            else
              (let messages1 = messages @ [\<lparr>role = user, content = prompt, model = None\<rparr>]
               in case map_of MODELS selected_model of
                    None \<Rightarrow> (Inl (KeyError selected_model), (messages1, w))
                  | Some cfg \<Rightarrow>
                      (case get_gemini_response svc prompt (model_name cfg) temperature w of
                         (Inl e, w1) \<Rightarrow> (Inl e, (messages1, w1))
                       | (Inr response, w1) \<Rightarrow>
                           (let messages2 =
                                  messages1 @
                                  [\<lparr>role = assistant, content = response,
                                    model = Some selected_model\<rparr>]
                            in case save_conversation prompt response selected_model w1 of
                                 (Inl e, w2) \<Rightarrow> (Inl e, (messages2, w2))
                               | (Inr u, w2) \<Rightarrow> (Inr (), (messages2, w2)))))))"

text \<open>
  One run of the script: the sidebar (the selected label is looked up, the statistics
  are computed), then the chat handler. \<open>Inl\<close> is an exception that no handler of the
  program caught: it ends the run and the page shows it.
\<close>

definition run_script ::
  "service \<Rightarrow> string \<Rightarrow> real \<Rightarrow> string option \<Rightarrow> message list \<times> world \<Rightarrow>
   unit result \<times> (message list \<times> world)" where
  "run_script svc selected_model temperature prompt_input st =
     (case map_of MODELS selected_model of
        None \<Rightarrow> (Inl (KeyError selected_model), st)
      | Some cfg \<Rightarrow>
          (case sidebar_statistics (snd st) of
             Inl e \<Rightarrow> (Inl e, st)
           | Inr stats \<Rightarrow> chat_handler svc selected_model temperature prompt_input st))"

text \<open>Successive calls of \<^verbatim>\<open>save_conversation\<close>, each at its own time.\<close>

fun save_all :: "(datetime \<times> string \<times> string \<times> string) list \<Rightarrow> world \<Rightarrow> world" where
  "save_all [] w = w"
| "save_all ((t, question, response, label) # calls) w =
     save_all calls (snd (save_conversation question response label (w\<lparr>now := t\<rparr>)))"

fun all_succeed :: "(datetime \<times> string \<times> string \<times> string) list \<Rightarrow> world \<Rightarrow> bool" where
  "all_succeed [] w = True"
| "all_succeed ((t, question, response, label) # calls) w =
     (append_succeeds question response label (w\<lparr>now := t\<rparr>) \<and>
      all_succeed calls (snd (save_conversation question response label (w\<lparr>now := t\<rparr>))))"

section \<open>Notions used in the statements\<close>

text \<open>
  The list a call of \<^verbatim>\<open>save_conversation\<close> appends to: empty when the file is absent,
  the document when it is a list; there is none when the file cannot be loaded or holds
  another kind of value.
\<close>

definition stored_list :: "world \<Rightarrow> json list option" where
  "stored_list w =
     (case store w of
        Absent \<Rightarrow> Some []
      | Document (JList xs) \<Rightarrow> Some xs
      | other \<Rightarrow> None)"

text \<open>The value under \<^verbatim>\<open>'model'\<close> of a persisted record, when it is a dict that has one.\<close>

fun model_field :: "json \<Rightarrow> json option" where
  "model_field (JDict kvs) = map_of kvs ''model''"
| "model_field v = None"

text \<open>
  A persisted turn record: a dict, with or without a \<^verbatim>\<open>'model'\<close> field; a model that is
  there is a label (any hashable value will do).
\<close>

fun is_record :: "json \<Rightarrow> bool" where
  "is_record (JDict kvs) = (case map_of kvs ''model'' of None \<Rightarrow> True | Some v \<Rightarrow> hashable v)"
| "is_record v = False"

text \<open>What the sidebar shows as the total: nothing is counted while the file is absent.\<close>

fun shown_total :: "nat option \<Rightarrow> nat" where
  "shown_total None = 0"
| "shown_total (Some n) = n"

subsection \<open>Scenarios\<close>

definition answering :: "string \<Rightarrow> service" where
  "answering text = (\<lambda>question model_name temperature. Inr text)"

definition failing :: "py_exn \<Rightarrow> service" where
  "failing e = (\<lambda>question model_name temperature. Inl e)"

definition invalid_credential :: py_exn where
  "invalid_credential =
     PyException ''InvalidArgument'' ''400 API key not valid. Please pass a valid API key.''"

definition new_year :: datetime where
  "new_year = \<lparr>year = 2024, month = 1, day = 1, hour = 0, minute = 0, second = 0,
               microsecond = 0\<rparr>"

definition first_turn :: json where
  "first_turn =
     JDict [(''timestamp'', JStr ''2024-01-01 00:00:00''),
            (''model'', JStr ''Gemini 1.5 Flash''),
            (''question'', JStr ''hi''),
            (''response'', JStr ''hello'')]"

definition legacy_turn :: json where
  "legacy_turn =
     JDict [(''timestamp'', JStr ''2023-12-31 23:59:59''),
            (''question'', JStr ''ping''),
            (''response'', JStr ''pong'')]"

definition empty_world :: world where
  "empty_world = \<lparr>now = new_year, store = Absent, write_env = WriteOk, chat_log = []\<rparr>"

definition one_turn_world :: world where
  "one_turn_world =
     \<lparr>now = new_year, store = Document (JList [first_turn]), write_env = WriteOk,
      chat_log = []\<rparr>"

text \<open>An empty \<^verbatim>\<open>conversations.json\<close>: it exists and opens, and \<^verbatim>\<open>json.load\<close> rejects it.\<close>

definition empty_file_error :: py_exn where
  "empty_file_error =
     PyException ''JSONDecodeError'' ''Expecting value: line 1 column 1 (char 0)''"

definition corrupt_world :: world where
  "corrupt_world =
     \<lparr>now = new_year, store = Unparsable empty_file_error, write_env = WriteOk,
      chat_log = []\<rparr>"

text \<open>A file that can be read and not written.\<close>

definition read_only_world :: world where
  "read_only_world =
     \<lparr>now = new_year, store = Document (JList [first_turn]),
      write_env =
        OpenFails (PyException ''PermissionError''
                     (''[Errno 13] Permission denied: '' @ quoted ''conversations.json'')),
      chat_log = []\<rparr>"

text \<open>A device that fills up while the file is rewritten.\<close>

definition disk_full_world :: world where
  "disk_full_world =
     \<lparr>now = new_year, store = Document (JList [first_turn]),
      write_env =
        DumpFails (PyException ''OSError'' ''[Errno 28] No space left on device'')
          empty_file_error,
      chat_log = []\<rparr>"

section \<open>The paths through \<^verbatim>\<open>save_conversation\<close>\<close>

lemma logging_simps:
  "store (logging_info msg w) = store w" "write_env (logging_info msg w) = write_env w"
  "now (logging_info msg w) = now w" "chat_log (logging_info msg w) = chat_log w @ [(INFO, msg)]"
  "store (logging_error msg w) = store w" "write_env (logging_error msg w) = write_env w"
  "now (logging_error msg w) = now w" "chat_log (logging_error msg w) = chat_log w @ [(ERROR, msg)]"
  by (simp_all add: logging_info_def logging_error_def)

text \<open>The three ways through the \<^verbatim>\<open>try\<close> block.\<close>

lemma try_no_list:
  assumes "stored_list w = None"
  shows "\<exists>e. save_conversation_try q r l c w = (Inl e, w)"
  using assms
  by (auto simp: stored_list_def save_conversation_try_def path_exists_def json_load_def
      list_append_def split: file_state.splits json.splits)

lemma try_write:
  assumes "stored_list w = Some old"
  shows "save_conversation_try q r l c w =
     (case write_env w of
        WriteOk \<Rightarrow>
          (Inr (), logging_info (''R: '' @ r) (logging_info (''Q: '' @ q)
                     (logging_info (''Model: '' @ l) (w\<lparr>store := Document (JList (old @ [c]))\<rparr>))))
      | OpenFails e \<Rightarrow> (Inl e, w)
      | DumpFails e e' \<Rightarrow> (Inl e, w\<lparr>store := Unparsable e'\<rparr>))"
  using assms
  by (auto simp: stored_list_def save_conversation_try_def path_exists_def json_load_def
      list_append_def json_dump_def split: file_state.splits json.splits write_outcome.splits)

lemma append_succeeds_iff:
  "append_succeeds q r l w \<longleftrightarrow> stored_list w \<noteq> None \<and> write_env w = WriteOk"
proof (cases "stored_list w")
  case None
  from try_no_list [OF None] obtain e where
    "save_conversation_try q r l (new_conversation q r l w) w = (Inl e, w)" by blast
  with None show ?thesis by (simp add: append_succeeds_def)
next
  case (Some old)
  show ?thesis
    by (simp add: append_succeeds_def try_write [OF Some] Some split: write_outcome.splits)
qed

lemma save_conversation_success:
  assumes "append_succeeds q r l w" and "stored_list w = Some old"
  shows "save_conversation q r l w =
     (Inr (), logging_info (''R: '' @ r) (logging_info (''Q: '' @ q)
        (logging_info (''Model: '' @ l)
           (w\<lparr>store := Document (JList (old @ [new_conversation q r l w]))\<rparr>))))"
proof -
  from assms have "write_env w = WriteOk" by (simp add: append_succeeds_iff)
  then show ?thesis
    by (simp add: save_conversation_def try_write [OF assms(2)])
qed

lemma save_conversation_failure:
  assumes "\<not> append_succeeds q r l w"
  shows "\<exists>e w'. save_conversation_try q r l (new_conversation q r l w) w = (Inl e, w') \<and>
     save_conversation q r l w =
       (Inr (), logging_error (''Error saving conversation: '' @ exn_str e) w') \<and>
     chat_log w' = chat_log w \<and> now w' = now w \<and> write_env w' = write_env w \<and>
     (store w' = store w \<or>
      (\<exists>old e1 e2. stored_list w = Some old \<and> write_env w = DumpFails e1 e2 \<and>
         store w' = Unparsable e2))"
proof (cases "stored_list w")
  case None
  from try_no_list [OF None] obtain e where
    "save_conversation_try q r l (new_conversation q r l w) w = (Inl e, w)" by blast
  then show ?thesis by (simp add: save_conversation_def)
next
  case (Some old)
  with assms have "write_env w \<noteq> WriteOk" by (simp add: append_succeeds_iff)
  then show ?thesis
    by (cases "write_env w") (simp_all add: save_conversation_def try_write [OF Some] Some)
qed

section \<open>The gateway never raises\<close>

text \<open>
  Claim C1. For every backend identifier of \<open>MODELS\<close> and every temperature between 0
  and the maximum of its configuration, \<^verbatim>\<open>get_gemini_response\<close> raises nothing. When the
  service returns a text, that text is returned as it is and nothing is logged. When the
  service fails, the string \<^verbatim>\<open>An error occurred with <backend id>: <message>\<close> is
  returned like an answer, and the same string is logged as an error.
\<close>

theorem get_gemini_response_never_raises:
  assumes "(label, cfg) \<in> set MODELS"
    and "0 \<le> temperature" and "temperature \<le> max_temperature cfg"
  shows "(\<exists>text. svc question (model_name cfg) temperature = Inr text \<and>
            get_gemini_response svc question (model_name cfg) temperature w = (Inr text, w)) \<or>
         (\<exists>e. svc question (model_name cfg) temperature = Inl e \<and>
            get_gemini_response svc question (model_name cfg) temperature w =
              (Inr (''An error occurred with '' @ model_name cfg @ '': '' @ exn_str e),
               w\<lparr>chat_log := chat_log w @
                  [(ERROR, ''An error occurred with '' @ model_name cfg @ '': '' @ exn_str e)]\<rparr>))"
  by (cases "svc question (model_name cfg) temperature")
    (simp_all add: get_gemini_response_def logging_error_def Let_def)

theorem get_gemini_response_never_raises_witness:
  "(''Gemini 1.5 Pro'', the (map_of MODELS ''Gemini 1.5 Pro'')) \<in> set MODELS \<and>
   (0::real) \<le> 0.7 \<and> 0.7 \<le> max_temperature (the (map_of MODELS ''Gemini 1.5 Pro'')) \<and>
   get_gemini_response (failing invalid_credential) ''test'' ''gemini-1.5-pro'' 0.7 empty_world =
     (Inr ''An error occurred with gemini-1.5-pro: 400 API key not valid. Please pass a valid API key.'',
      empty_world\<lparr>chat_log :=
        [(ERROR, ''An error occurred with gemini-1.5-pro: 400 API key not valid. Please pass a valid API key.'')]\<rparr>)"
  using get_gemini_response_never_raises
    [of "''Gemini 1.5 Pro''" "the (map_of MODELS ''Gemini 1.5 Pro'')" "0.7"
        "failing invalid_credential" "''test''" empty_world]
  by (simp add: MODELS_def failing_def invalid_credential_def empty_world_def)

section \<open>The store swallows its errors\<close>

text \<open>
  Claim C2. \<^verbatim>\<open>save_conversation\<close> returns normally for every turn and every state of the
  file and of the device, whatever is raised while the file is read, the turn appended
  or the file rewritten: the exception that leaves the \<^verbatim>\<open>try\<close> block is logged as
  \<^verbatim>\<open>Error saving conversation: <message>\<close> and goes no further.
\<close>

theorem save_conversation_never_propagates:
  "fst (save_conversation question response label w) = Inr () \<and>
   (\<forall>e w'. save_conversation_try question response label
              (new_conversation question response label w) w = (Inl e, w') \<longrightarrow>
      snd (save_conversation question response label w) =
        logging_error (''Error saving conversation: '' @ exn_str e) w' \<and>
      chat_log (snd (save_conversation question response label w)) =
        chat_log w @ [(ERROR, ''Error saving conversation: '' @ exn_str e)])"
proof (cases "append_succeeds question response label w")
  case True
  then obtain old where "stored_list w = Some old" by (auto simp: append_succeeds_iff)
  with True show ?thesis
    using save_conversation_success [of question response label w old]
    by (auto simp: append_succeeds_def)
next
  case False
  from save_conversation_failure [OF False] show ?thesis
    by (auto simp: logging_simps)
qed

theorem save_conversation_never_propagates_witness:
  "save_conversation_try ''hi'' ''hello'' ''Gemini 1.5 Flash''
      (new_conversation ''hi'' ''hello'' ''Gemini 1.5 Flash'' corrupt_world) corrupt_world =
     (Inl empty_file_error, corrupt_world) \<and>
   save_conversation ''hi'' ''hello'' ''Gemini 1.5 Flash'' corrupt_world =
     (Inr (), corrupt_world\<lparr>chat_log :=
        [(ERROR, ''Error saving conversation: Expecting value: line 1 column 1 (char 0)'')]\<rparr>)"
proof -
  have t: "save_conversation_try ''hi'' ''hello'' ''Gemini 1.5 Flash''
      (new_conversation ''hi'' ''hello'' ''Gemini 1.5 Flash'' corrupt_world) corrupt_world =
     (Inl empty_file_error, corrupt_world)"
    by (simp add: save_conversation_try_def path_exists_def json_load_def corrupt_world_def)
  from save_conversation_never_propagates
    [of "''hi''" "''hello''" "''Gemini 1.5 Flash''" corrupt_world] t
  show ?thesis
    by (cases "save_conversation ''hi'' ''hello'' ''Gemini 1.5 Flash'' corrupt_world")
      (simp add: logging_error_def empty_file_error_def corrupt_world_def)
qed

section \<open>What an append writes\<close>

text \<open>
  Claim C4. Round trip: when a call of \<^verbatim>\<open>save_conversation\<close> appends its turn (its
  \<^verbatim>\<open>try\<close> block runs to the end), loading the file afterwards gives a list whose last
  record has exactly the four fields that were written: the timestamp string as
  \<^verbatim>\<open>strftime\<close> made it, the model label, the question and the response.
\<close>

theorem save_then_reload_roundtrip:
  assumes "append_succeeds question response label w"
  shows "\<exists>convs. json_load (snd (save_conversation question response label w)) = Inr (JList convs) \<and>
           convs \<noteq> [] \<and>
           last convs =
             JDict [(''timestamp'', JStr (strftime (now w))),
                    (''model'', JStr label),
                    (''question'', JStr question),
                    (''response'', JStr response)]"
proof -
  from assms obtain old where old: "stored_list w = Some old"
    by (auto simp: append_succeeds_iff)
  have "json_load (snd (save_conversation question response label w)) =
          Inr (JList (old @ [new_conversation question response label w]))"
    by (simp add: save_conversation_success [OF assms old] json_load_def logging_simps)
  then show ?thesis
    by (simp add: new_conversation_def)
qed

theorem save_then_reload_roundtrip_witness:
  "append_succeeds ''hi'' ''hello'' ''Gemini 1.5 Flash'' empty_world \<and>
   json_load (snd (save_conversation ''hi'' ''hello'' ''Gemini 1.5 Flash'' empty_world)) =
     Inr (JList [JDict [(''timestamp'', JStr ''2024-01-01 00:00:00''),
                        (''model'', JStr ''Gemini 1.5 Flash''),
                        (''question'', JStr ''hi''),
                        (''response'', JStr ''hello'')]])"
proof -
  have ok: "append_succeeds ''hi'' ''hello'' ''Gemini 1.5 Flash'' empty_world"
    by (simp add: append_succeeds_iff stored_list_def empty_world_def)
  have old: "stored_list empty_world = Some []"
    by (simp add: stored_list_def empty_world_def)
  have ts: "strftime (now empty_world) = ''2024-01-01 00:00:00''"
    by (simp add: empty_world_def strftime_def new_year_def dec4_def dec2_def digit_def)
  from save_then_reload_roundtrip [OF ok] obtain convs where
    c: "json_load (snd (save_conversation ''hi'' ''hello'' ''Gemini 1.5 Flash'' empty_world)) =
          Inr (JList convs)"
    and l: "last convs = JDict [(''timestamp'', JStr (strftime (now empty_world))),
                    (''model'', JStr ''Gemini 1.5 Flash''),
                    (''question'', JStr ''hi''),
                    (''response'', JStr ''hello'')]"
    by blast
  have "json_load (snd (save_conversation ''hi'' ''hello'' ''Gemini 1.5 Flash'' empty_world)) =
          Inr (JList ([] @ [new_conversation ''hi'' ''hello'' ''Gemini 1.5 Flash'' empty_world]))"
    by (simp add: save_conversation_success [OF ok old] json_load_def logging_simps)
  with c have "convs = [new_conversation ''hi'' ''hello'' ''Gemini 1.5 Flash'' empty_world]"
    by simp
  with l c ts ok show ?thesis by simp
qed

text \<open>
  A turn that is in the file can be lost. The file holds one turn and the device fills
  up while the file is rewritten: \<^verbatim>\<open>open(..., 'w')\<close> has emptied the file when
  \<^verbatim>\<open>json.dump\<close> raises, the handler logs the error, and the file no longer loads.
\<close>

theorem append_deletes_counterexample:
  "json_load disk_full_world = Inr (JList [first_turn]) \<and>
   save_conversation ''hi'' ''hello'' ''Gemini 1.5 Flash'' disk_full_world =
     (Inr (),
      disk_full_world\<lparr>store := Unparsable empty_file_error,
        chat_log := [(ERROR, ''Error saving conversation: [Errno 28] No space left on device'')]\<rparr>) \<and>
   json_load (snd (save_conversation ''hi'' ''hello'' ''Gemini 1.5 Flash'' disk_full_world)) =
     Inl empty_file_error"
  by (simp add: save_conversation_def save_conversation_try_def path_exists_def json_load_def
      list_append_def json_dump_def logging_error_def disk_full_world_def)

text \<open>
  Claim C6, amended. An append that succeeds leaves the turns that were in the file as
  they were and in their order, and puts the new turn at the end. A call that fails
  before the write (the file cannot be loaded or is not a list) or at
  \<^verbatim>\<open>open(..., 'w')\<close> leaves the file as it was. A call whose \<^verbatim>\<open>json.dump\<close> fails after
  the file was opened for writing leaves a file that does not load. The statistics
  block reads the world and returns none, so it changes nothing.
\<close>

theorem append_frame:
  "(append_succeeds question response label w \<longrightarrow>
      (\<exists>old. stored_list w = Some old \<and>
         store (snd (save_conversation question response label w)) =
           Document (JList (old @ [new_conversation question response label w])))) \<and>
   (stored_list w = None \<or> (\<exists>e. write_env w = OpenFails e) \<longrightarrow>
      store (snd (save_conversation question response label w)) = store w) \<and>
   (\<forall>old e e'. stored_list w = Some old \<and> write_env w = DumpFails e e' \<longrightarrow>
      store (snd (save_conversation question response label w)) = Unparsable e')"
proof (intro conjI impI allI)
  assume ok: "append_succeeds question response label w"
  then obtain old where old: "stored_list w = Some old"
    by (auto simp: append_succeeds_iff)
  show "\<exists>old. stored_list w = Some old \<and>
         store (snd (save_conversation question response label w)) =
           Document (JList (old @ [new_conversation question response label w]))"
    by (simp add: save_conversation_success [OF ok old] old logging_simps)
next
  assume a: "stored_list w = None \<or> (\<exists>e. write_env w = OpenFails e)"
  then have "\<not> append_succeeds question response label w"
    by (auto simp: append_succeeds_iff)
  from save_conversation_failure [OF this] a
  show "store (snd (save_conversation question response label w)) = store w"
    by (auto simp: logging_simps)
next
  fix old e e'
  assume a: "stored_list w = Some old \<and> write_env w = DumpFails e e'"
  then show "store (snd (save_conversation question response label w)) = Unparsable e'"
    by (simp add: save_conversation_def try_write [of w old] logging_simps)
qed

theorem append_frame_witness:
  "append_succeeds ''again'' ''hello again'' ''Gemini 1.5 Pro'' one_turn_world \<and>
   stored_list one_turn_world = Some [first_turn] \<and>
   store (snd (save_conversation ''again'' ''hello again'' ''Gemini 1.5 Pro'' one_turn_world)) =
     Document (JList [first_turn,
       new_conversation ''again'' ''hello again'' ''Gemini 1.5 Pro'' one_turn_world]) \<and>
   (\<exists>e. write_env read_only_world = OpenFails e) \<and>
   store (snd (save_conversation ''again'' ''hello again'' ''Gemini 1.5 Pro'' read_only_world)) =
     store read_only_world \<and>
   stored_list disk_full_world = Some [first_turn] \<and>
   store (snd (save_conversation ''again'' ''hello again'' ''Gemini 1.5 Pro'' disk_full_world)) =
     Unparsable empty_file_error"
proof -
  have ok: "append_succeeds ''again'' ''hello again'' ''Gemini 1.5 Pro'' one_turn_world"
    by (simp add: append_succeeds_iff stored_list_def one_turn_world_def)
  have old: "stored_list one_turn_world = Some [first_turn]"
    by (simp add: stored_list_def one_turn_world_def)
  have ro: "\<exists>e. write_env read_only_world = OpenFails e"
    by (simp add: read_only_world_def)
  have df: "stored_list disk_full_world = Some [first_turn] \<and>
      write_env disk_full_world =
        DumpFails (PyException ''OSError'' ''[Errno 28] No space left on device'') empty_file_error"
    by (simp add: stored_list_def disk_full_world_def)
  from append_frame [of "''again''" "''hello again''" "''Gemini 1.5 Pro''" one_turn_world] ok old
  have 1: "store (snd (save_conversation ''again'' ''hello again'' ''Gemini 1.5 Pro'' one_turn_world)) =
     Document (JList [first_turn,
       new_conversation ''again'' ''hello again'' ''Gemini 1.5 Pro'' one_turn_world])"
    by simp
  from append_frame [of "''again''" "''hello again''" "''Gemini 1.5 Pro''" read_only_world] ro
  have 2: "store (snd (save_conversation ''again'' ''hello again'' ''Gemini 1.5 Pro'' read_only_world)) =
     store read_only_world"
    by blast
  from append_frame [of "''again''" "''hello again''" "''Gemini 1.5 Pro''" disk_full_world] df
  have 3: "store (snd (save_conversation ''again'' ''hello again'' ''Gemini 1.5 Pro'' disk_full_world)) =
     Unparsable empty_file_error"
    by blast
  from ok old ro df 1 2 3 show ?thesis by simp
qed

section \<open>The three log lines\<close>

text \<open>
  The three lines are written inside the \<^verbatim>\<open>try\<close>, after the file: with a file that
  does not load, the call logs one error line and none of the three.
\<close>

theorem log_lines_counterexample:
  "chat_log (snd (save_conversation ''hi'' ''hello'' ''Gemini 1.5 Flash'' corrupt_world)) =
     [(ERROR, ''Error saving conversation: Expecting value: line 1 column 1 (char 0)'')] \<and>
   (INFO, ''Q: hi'') \<notin>
     set (chat_log (snd (save_conversation ''hi'' ''hello'' ''Gemini 1.5 Flash'' corrupt_world)))"
  by (simp add: save_conversation_def save_conversation_try_def path_exists_def json_load_def
      logging_error_def corrupt_world_def empty_file_error_def)

text \<open>
  Claim C9, amended. A call of \<^verbatim>\<open>save_conversation\<close> that appends its turn adds to the
  log the three lines \<^verbatim>\<open>Model: ...\<close>, \<^verbatim>\<open>Q: ...\<close>, \<^verbatim>\<open>R: ...\<close>, in this order and nothing
  else. A call whose read, append or write fails adds the single line
  \<^verbatim>\<open>Error saving conversation: ...\<close> and none of the three.
\<close>

theorem log_lines_follow_the_write:
  "(append_succeeds question response label w \<longrightarrow>
      chat_log (snd (save_conversation question response label w)) =
        chat_log w @ [(INFO, ''Model: '' @ label), (INFO, ''Q: '' @ question),
                      (INFO, ''R: '' @ response)]) \<and>
   (\<not> append_succeeds question response label w \<longrightarrow>
      (\<exists>e. chat_log (snd (save_conversation question response label w)) =
             chat_log w @ [(ERROR, ''Error saving conversation: '' @ exn_str e)]))"
proof (intro conjI impI)
  assume ok: "append_succeeds question response label w"
  then obtain old where old: "stored_list w = Some old"
    by (auto simp: append_succeeds_iff)
  show "chat_log (snd (save_conversation question response label w)) =
        chat_log w @ [(INFO, ''Model: '' @ label), (INFO, ''Q: '' @ question),
                      (INFO, ''R: '' @ response)]"
    by (simp add: save_conversation_success [OF ok old] logging_simps)
next
  assume "\<not> append_succeeds question response label w"
  from save_conversation_failure [OF this]
  show "\<exists>e. chat_log (snd (save_conversation question response label w)) =
             chat_log w @ [(ERROR, ''Error saving conversation: '' @ exn_str e)]"
    by (auto simp: logging_simps)
qed

theorem log_lines_follow_the_write_witness:
  "append_succeeds ''hi'' ''hello'' ''Gemini 1.5 Flash'' empty_world \<and>
   chat_log (snd (save_conversation ''hi'' ''hello'' ''Gemini 1.5 Flash'' empty_world)) =
     [(INFO, ''Model: Gemini 1.5 Flash''), (INFO, ''Q: hi''), (INFO, ''R: hello'')] \<and>
   \<not> append_succeeds ''hi'' ''hello'' ''Gemini 1.5 Flash'' read_only_world \<and>
   (\<exists>e. chat_log (snd (save_conversation ''hi'' ''hello'' ''Gemini 1.5 Flash'' read_only_world)) =
          [(ERROR, ''Error saving conversation: '' @ exn_str e)])"
proof -
  have ok: "append_succeeds ''hi'' ''hello'' ''Gemini 1.5 Flash'' empty_world"
    by (simp add: append_succeeds_iff stored_list_def empty_world_def)
  have no: "\<not> append_succeeds ''hi'' ''hello'' ''Gemini 1.5 Flash'' read_only_world"
    by (simp add: append_succeeds_iff read_only_world_def)
  have e: "chat_log empty_world = []" "chat_log read_only_world = []"
    by (simp_all add: empty_world_def read_only_world_def)
  from log_lines_follow_the_write [of "''hi''" "''hello''" "''Gemini 1.5 Flash''" empty_world] ok e
  have 1: "chat_log (snd (save_conversation ''hi'' ''hello'' ''Gemini 1.5 Flash'' empty_world)) =
     [(INFO, ''Model: Gemini 1.5 Flash''), (INFO, ''Q: hi''), (INFO, ''R: hello'')]"
    by simp
  from log_lines_follow_the_write [of "''hi''" "''hello''" "''Gemini 1.5 Flash''" read_only_world] no e
  have 2: "\<exists>e. chat_log (snd (save_conversation ''hi'' ''hello'' ''Gemini 1.5 Flash'' read_only_world)) =
          [(ERROR, ''Error saving conversation: '' @ exn_str e)]"
    by simp
  from ok no 1 2 show ?thesis by blast
qed

section \<open>The statistics\<close>

text \<open>
  The counting loop adds one to one entry of \<^verbatim>\<open>model_counts\<close> for each conversation it
  passes, so the entries sum to the number of conversations; it raises on an item that
  is no dict and on a model that cannot be a key.
\<close>

lemma py_eq_JStr [simp]: "py_eq v (JStr s) \<longleftrightarrow> v = JStr s"
  by (cases v) (simp_all add: py_eq_def)

lemma py_eq_same_label:
  "py_eq a b \<Longrightarrow> (a = JStr s) = (b = JStr s)"
  by (cases a; cases b; simp add: py_eq_def)

lemma dict_set_sum:
  "sum_list (map snd (dict_set d k (Suc (dict_get d k 0)))) = Suc (sum_list (map snd d))"
proof (induction d)
  case Nil
  then show ?case by simp
next
  case (Cons kv d)
  obtain k' v' where kv: "kv = (k', v')" by (cases kv)
  with Cons.IH show ?case by (cases "py_eq k' k") simp_all
qed

lemma dict_get_set_JStr:
  "dict_get (dict_set d k v) (JStr s) x = (if k = JStr s then v else dict_get d (JStr s) x)"
proof (induction d)
  case Nil
  then show ?case by simp
next
  case (Cons kv d)
  obtain k' v' where kv: "kv = (k', v')" by (cases kv)
  show ?case
  proof (cases "py_eq k' k")
    case True
    from py_eq_same_label [OF True] have "(k' = JStr s) = (k = JStr s)" .
    with True kv show ?thesis by simp
  next
    case False
    with kv Cons.IH show ?thesis by auto
  qed
qed

lemma count_models_sum:
  "count_models convs acc = Inr counts \<Longrightarrow>
     sum_list (map snd counts) = sum_list (map snd acc) + length convs"
proof (induction convs arbitrary: acc)
  case Nil
  then show ?case by simp
next
  case (Cons conv rest)
  from Cons.prems obtain v where v: "conv_get_model conv = Inr v" "hashable v"
    and rest: "count_models rest (dict_set acc v (dict_get acc v 0 + 1)) = Inr counts"
    by (auto split: sum.splits if_splits)
  from Cons.IH [OF rest] show ?case
    by (simp add: dict_set_sum)
qed

lemma is_record_get:
  "is_record c \<Longrightarrow> \<exists>v. conv_get_model c = Inr v \<and> hashable v"
  by (cases c) (auto simp: conv_get_model_def split: option.splits)

lemma count_models_total:
  "\<forall>c\<in>set convs. is_record c \<Longrightarrow> \<exists>counts. count_models convs acc = Inr counts"
proof (induction convs arbitrary: acc)
  case Nil
  then show ?case by simp
next
  case (Cons conv rest)
  then have "is_record conv" by simp
  from is_record_get [OF this] obtain v where "conv_get_model conv = Inr v" "hashable v"
    by blast
  with Cons show ?case by simp
qed

lemma count_models_key:
  "count_models convs acc = Inr counts \<Longrightarrow>
     dict_get counts (JStr s) 0 =
       dict_get acc (JStr s) 0 + length (filter (\<lambda>c. conv_get_model c = Inr (JStr s)) convs)"
proof (induction convs arbitrary: acc)
  case Nil
  then show ?case by simp
next
  case (Cons conv rest)
  from Cons.prems obtain v where v: "conv_get_model conv = Inr v" "hashable v"
    and rest: "count_models rest (dict_set acc v (dict_get acc v 0 + 1)) = Inr counts"
    by (auto split: sum.splits if_splits)
  from Cons.IH [OF rest] v show ?case
    by (auto simp: dict_get_set_JStr)
qed

lemma record_default:
  "is_record c \<Longrightarrow>
     (conv_get_model c = Inr (JStr ''Unknown'')) =
       (model_field c = None \<or> model_field c = Some (JStr ''Unknown''))"
  by (cases c) (auto simp: conv_get_model_def split: option.splits)

lemma filter_split:
  "\<forall>c\<in>set convs. \<not> (P c \<and> Q c) \<Longrightarrow>
     length (filter (\<lambda>c. P c \<or> Q c) convs) = length (filter P convs) + length (filter Q convs)"
  by (induction convs) auto

lemma py_len_iter:
  "py_len j = Inr n \<Longrightarrow> \<exists>convs. py_iter j = Inr convs \<and> length convs = n"
  by (cases j) (auto simp: py_len_def py_iter_def)

lemma statistics_sum:
  assumes "sidebar_statistics w = Inr (Some (n, counts))"
  shows "sum_list (map snd counts) = n"
proof -
  from assms obtain j where j: "py_len j = Inr n" "model_counts j = Inr counts"
    by (auto simp: sidebar_statistics_def split: if_splits sum.splits)
  from py_len_iter [OF j(1)] obtain convs where c: "py_iter j = Inr convs" "length convs = n"
    by blast
  with j(2) have "count_models convs [] = Inr counts" by (simp add: model_counts_def)
  from count_models_sum [OF this] c show ?thesis by simp
qed

lemma statistics_total:
  "sidebar_statistics w = Inr (Some (n, counts)) \<Longrightarrow> conversation_count w = Inr (Some n)"
  by (auto simp: sidebar_statistics_def conversation_count_def split: if_splits sum.splits)

text \<open>
  Claim C5. For every file that holds a list of turn records, the statistics block
  produces a total and counts per model, and the counts sum to the total. (By
  \<open>statistics_sum\<close> the sum equals the total for every content of the file on which
  the block produces statistics at all.)
\<close>

theorem per_model_counts_sum_to_total:
  assumes "store w = Document (JList convs)" and "\<forall>c\<in>set convs. is_record c"
  shows "\<exists>counts. sidebar_statistics w = Inr (Some (length convs, counts)) \<and>
           sum_list (map snd counts) = length convs"
proof -
  from count_models_total [OF assms(2)] obtain counts where
    c: "count_models convs [] = Inr counts" by blast
  from assms(1) c have "sidebar_statistics w = Inr (Some (length convs, counts))"
    by (simp add: sidebar_statistics_def path_exists_def json_load_def py_len_def
        model_counts_def py_iter_def)
  moreover from count_models_sum [OF c] have "sum_list (map snd counts) = length convs"
    by simp
  ultimately show ?thesis by blast
qed

theorem per_model_counts_sum_to_total_witness:
  "store (one_turn_world\<lparr>store := Document (JList [first_turn, legacy_turn])\<rparr>) =
     Document (JList [first_turn, legacy_turn]) \<and>
   is_record first_turn \<and> is_record legacy_turn \<and>
   sidebar_statistics (one_turn_world\<lparr>store := Document (JList [first_turn, legacy_turn])\<rparr>) =
     Inr (Some (2, [(JStr ''Gemini 1.5 Flash'', 1), (JStr ''Unknown'', 1)])) \<and>
   sum_list (map snd [(JStr ''Gemini 1.5 Flash'', 1::nat), (JStr ''Unknown'', 1)]) = 2"
proof -
  have r: "\<forall>c\<in>set [first_turn, legacy_turn]. is_record c"
    by (simp add: first_turn_def legacy_turn_def)
  have s: "store (one_turn_world\<lparr>store := Document (JList [first_turn, legacy_turn])\<rparr>) =
     Document (JList [first_turn, legacy_turn])" by simp
  have v: "sidebar_statistics (one_turn_world\<lparr>store := Document (JList [first_turn, legacy_turn])\<rparr>) =
     Inr (Some (2, [(JStr ''Gemini 1.5 Flash'', 1), (JStr ''Unknown'', 1)]))"
    by (simp add: sidebar_statistics_def path_exists_def json_load_def py_len_def
        model_counts_def py_iter_def conv_get_model_def first_turn_def legacy_turn_def py_eq_def)
  have r': "is_record first_turn \<and> is_record legacy_turn"
    by (simp add: first_turn_def legacy_turn_def)
  from per_model_counts_sum_to_total [OF s r] r' s v show ?thesis by simp
qed

text \<open>
  Claim C10. The counting loop runs to its end on every list of records, with or
  without a \<^verbatim>\<open>'model'\<close> field, and a record without the field is counted under
  \<^verbatim>\<open>'Unknown'\<close>: the count under that key is the number of records without the field
  plus the number of records whose model is the string \<^verbatim>\<open>'Unknown'\<close> itself.
\<close>

theorem missing_model_counted_as_Unknown:
  assumes "\<forall>c\<in>set convs. is_record c"
  shows "\<exists>counts. model_counts (JList convs) = Inr counts \<and>
           dict_get counts (JStr ''Unknown'') 0 =
             length (filter (\<lambda>c. model_field c = None) convs) +
             length (filter (\<lambda>c. model_field c = Some (JStr ''Unknown'')) convs)"
proof -
  from count_models_total [OF assms] obtain counts where
    c: "count_models convs [] = Inr counts" by blast
  have "filter (\<lambda>c. conv_get_model c = Inr (JStr ''Unknown'')) convs =
        filter (\<lambda>c. model_field c = None \<or> model_field c = Some (JStr ''Unknown'')) convs"
    using assms by (intro filter_cong refl) (simp add: record_default)
  with count_models_key [OF c, of "''Unknown''"]
  have "dict_get counts (JStr ''Unknown'') 0 =
      length (filter (\<lambda>c. model_field c = None \<or> model_field c = Some (JStr ''Unknown'')) convs)"
    by simp
  also have "\<dots> = length (filter (\<lambda>c. model_field c = None) convs) +
             length (filter (\<lambda>c. model_field c = Some (JStr ''Unknown'')) convs)"
    by (rule filter_split [of convs "\<lambda>c. model_field c = None"
          "\<lambda>c. model_field c = Some (JStr ''Unknown'')"]) auto
  finally show ?thesis using c by (simp add: model_counts_def py_iter_def)
qed

theorem missing_model_counted_as_Unknown_witness:
  "is_record legacy_turn \<and> is_record first_turn \<and>
   model_field legacy_turn = None \<and>
   model_counts (JList [legacy_turn, first_turn, legacy_turn]) =
     Inr [(JStr ''Unknown'', 2), (JStr ''Gemini 1.5 Flash'', 1)]"
proof -
  have r: "\<forall>c\<in>set [legacy_turn, first_turn, legacy_turn]. is_record c"
    by (simp add: first_turn_def legacy_turn_def)
  have v: "model_counts (JList [legacy_turn, first_turn, legacy_turn]) =
     Inr [(JStr ''Unknown'', 2), (JStr ''Gemini 1.5 Flash'', 1)]"
    by (simp add: model_counts_def py_iter_def conv_get_model_def first_turn_def
        legacy_turn_def py_eq_def)
  have m: "model_field legacy_turn = None" by (simp add: legacy_turn_def)
  have r': "is_record legacy_turn \<and> is_record first_turn"
    by (simp add: first_turn_def legacy_turn_def)
  from missing_model_counted_as_Unknown [OF r] r' v m show ?thesis by simp
qed

section \<open>Successive appends\<close>

lemma stored_list_now [simp]: "stored_list (w\<lparr>now := t\<rparr>) = stored_list w"
  by (simp add: stored_list_def)

lemma stored_list_Document [simp]:
  "store w = Document (JList xs) \<Longrightarrow> stored_list w = Some xs"
  by (simp add: stored_list_def)

lemma save_all_store:
  "all_succeed calls w \<Longrightarrow> stored_list w = Some old \<Longrightarrow>
     \<exists>new. length new = length calls \<and>
       stored_list (save_all calls w) = Some (old @ new) \<and>
       (calls \<noteq> [] \<or> store w = Document (JList old) \<longrightarrow>
          store (save_all calls w) = Document (JList (old @ new)))"
proof (induction calls arbitrary: w old)
  case Nil
  then show ?case by simp
next
  case (Cons call calls)
  obtain t q r l where call: "call = (t, q, r, l)" by (cases call)
  let ?w1 = "w\<lparr>now := t\<rparr>"
  let ?w2 = "snd (save_conversation q r l ?w1)"
  let ?c = "new_conversation q r l ?w1"
  from Cons.prems call have ok: "append_succeeds q r l ?w1" and rest: "all_succeed calls ?w2"
    by simp_all
  from Cons.prems have old: "stored_list ?w1 = Some old" by simp
  have st: "store ?w2 = Document (JList (old @ [?c]))"
    by (simp add: save_conversation_success [OF ok old] logging_simps)
  then have sl: "stored_list ?w2 = Some (old @ [?c])" by simp
  from Cons.IH [OF rest sl] st obtain new where
    n: "length new = length calls"
    and s1: "stored_list (save_all calls ?w2) = Some ((old @ [?c]) @ new)"
    and s2: "store (save_all calls ?w2) = Document (JList ((old @ [?c]) @ new))"
    by blast
  have "length (?c # new) = length (call # calls)" using n by simp
  moreover have "stored_list (save_all (call # calls) w) = Some (old @ ?c # new)"
    using s1 call by simp
  moreover have "store (save_all (call # calls) w) = Document (JList (old @ ?c # new))"
    using s2 call by simp
  ultimately show ?case by blast
qed

lemma conversation_count_stored:
  assumes "stored_list w = Some old" and "conversation_count w = Inr c"
  shows "shown_total c = length old"
  using assms
  by (auto simp: stored_list_def conversation_count_def path_exists_def json_load_def py_len_def
      split: file_state.splits json.splits)

lemma conversation_count_list:
  "store w = Document (JList xs) \<Longrightarrow> conversation_count w = Inr (Some (length xs))"
  by (simp add: conversation_count_def path_exists_def json_load_def py_len_def)

text \<open>
  Claim C3. From every state of the file, after \<open>n\<close> calls of \<^verbatim>\<open>save_conversation\<close> that
  all append their turn, with nothing else touching the file, the total that the
  statistics block computes is the total it computed before plus \<open>n\<close> (an absent file,
  for which the block computes nothing, counts as zero conversations).
\<close>

theorem appends_add_to_total:
  assumes "all_succeed calls w" and "conversation_count w = Inr c0"
  shows "\<exists>c. conversation_count (save_all calls w) = Inr c \<and>
           shown_total c = shown_total c0 + length calls"
proof (cases calls)
  case Nil
  with assms(2) show ?thesis by simp
next
  case (Cons call rest)
  obtain t q r l where call: "call = (t, q, r, l)" by (cases call)
  with assms(1) Cons have "append_succeeds q r l (w\<lparr>now := t\<rparr>)" by simp
  then obtain old where old: "stored_list w = Some old"
    by (auto simp: append_succeeds_iff)
  from save_all_store [OF assms(1) old] Cons obtain new where
    n: "length new = length calls"
    and s: "store (save_all calls w) = Document (JList (old @ new))"
    by blast
  from conversation_count_list [OF s] n conversation_count_stored [OF old assms(2)]
  show ?thesis by simp
qed

theorem appends_add_to_total_witness:
  "all_succeed [(new_year, ''hi'', ''hello'', ''Gemini 1.5 Flash''),
                (new_year, ''again'', ''hello again'', ''Gemini 1.5 Pro'')] empty_world \<and>
   conversation_count empty_world = Inr None \<and>
   conversation_count
     (save_all [(new_year, ''hi'', ''hello'', ''Gemini 1.5 Flash''),
                (new_year, ''again'', ''hello again'', ''Gemini 1.5 Pro'')] empty_world) =
     Inr (Some 2)"
proof -
  let ?calls = "[(new_year, ''hi'', ''hello'', ''Gemini 1.5 Flash''),
                (new_year, ''again'', ''hello again'', ''Gemini 1.5 Pro'')]"
  let ?w2 = "snd (save_conversation ''hi'' ''hello'' ''Gemini 1.5 Flash'' empty_world)"
  have e: "empty_world\<lparr>now := new_year\<rparr> = empty_world"
    by (simp add: empty_world_def)
  have ok1: "append_succeeds ''hi'' ''hello'' ''Gemini 1.5 Flash'' empty_world"
    by (simp add: append_succeeds_iff stored_list_def empty_world_def)
  have old1: "stored_list empty_world = Some []"
    by (simp add: stored_list_def empty_world_def)
  have w2: "stored_list ?w2 \<noteq> None" "write_env ?w2 = WriteOk"
    unfolding save_conversation_success [OF ok1 old1]
    by (simp_all add: logging_simps stored_list_def empty_world_def)
  have ok2: "append_succeeds ''again'' ''hello again'' ''Gemini 1.5 Pro'' (?w2\<lparr>now := new_year\<rparr>)"
    using w2 by (simp add: append_succeeds_iff)
  have ok: "all_succeed ?calls empty_world"
    using ok1 ok2 by (simp add: e)
  have c0: "conversation_count empty_world = Inr None"
    by (simp add: conversation_count_def path_exists_def empty_world_def)
  from appends_add_to_total [OF ok c0] obtain c where
    "conversation_count (save_all ?calls empty_world) = Inr c" "shown_total c = 2"
    by auto
  moreover from this have "c = Some 2" by (cases c) (simp_all add:
      conversation_count_def split: if_splits sum.splits)
  ultimately show ?thesis using ok c0 by simp
qed

section \<open>The interaction cycle\<close>

lemma gateway_result:
  "\<exists>response. get_gemini_response svc question m temperature w =
     (Inr response,
      case svc question m temperature of Inr text \<Rightarrow> w | Inl e \<Rightarrow> logging_error response w) \<and>
     response =
       (case svc question m temperature of
          Inr text \<Rightarrow> text
        | Inl e \<Rightarrow> ''An error occurred with '' @ m @ '': '' @ exn_str e)"
  by (cases "svc question m temperature") (simp_all add: get_gemini_response_def Let_def)

lemma gateway_world:
  "store (snd (get_gemini_response svc question m temperature w)) = store w \<and>
   write_env (snd (get_gemini_response svc question m temperature w)) = write_env w \<and>
   now (snd (get_gemini_response svc question m temperature w)) = now w"
  by (cases "svc question m temperature")
    (simp_all add: get_gemini_response_def Let_def logging_simps)

lemma new_conversation_now:
  "now w' = now w \<Longrightarrow> new_conversation q r l w' = new_conversation q r l w"
  by (simp add: new_conversation_def)

lemma save_conversation_returns:
  "\<exists>w'. save_conversation q r l w = (Inr (), w')"
  by (cases "save_conversation_try q r l (new_conversation q r l w) w";
      cases "fst (save_conversation_try q r l (new_conversation q r l w) w)")
    (simp_all add: save_conversation_def)

lemma chat_handler_cycle:
  assumes "prompt \<noteq> []" and "map_of MODELS selected_model = Some cfg"
    and "get_gemini_response svc prompt (model_name cfg) temperature w = (Inr response, w1)"
  shows "chat_handler svc selected_model temperature (Some prompt) (messages, w) =
     (Inr (),
      (messages @ [\<lparr>role = user, content = prompt, model = None\<rparr>,
                   \<lparr>role = assistant, content = response, model = Some selected_model\<rparr>],
       snd (save_conversation prompt response selected_model w1)))"
proof -
  from save_conversation_returns [of prompt response selected_model w1]
  obtain w2 where "save_conversation prompt response selected_model w1 = (Inr (), w2)"
    by blast
  with assms show ?thesis
    by (simp add: chat_handler_def Let_def)
qed

lemma chat_handler_catches:
  assumes "map_of MODELS selected_model = Some cfg"
  shows "fst (chat_handler svc selected_model temperature prompt_input (messages, w)) = Inr ()"
proof (cases prompt_input)
  case None
  then show ?thesis by (simp add: chat_handler_def)
next
  case (Some prompt)
  show ?thesis
  proof (cases "prompt = []")
    case True
    with Some show ?thesis by (simp add: chat_handler_def)
  next
    case False
    from gateway_result [of svc prompt "model_name cfg" temperature w]
    obtain response w1 where
      "get_gemini_response svc prompt (model_name cfg) temperature w = (Inr response, w1)"
      by blast
    from chat_handler_cycle [OF False assms this] Some show ?thesis by simp
  qed
qed

text \<open>
  A cycle can end without a turn in the file. The file can be read and not written:
  the gateway answers, the reply joins the session, \<^verbatim>\<open>save_conversation\<close> swallows the
  error of the write, the handler returns normally, and the file holds what it held.
\<close>

theorem cycle_without_turn_counterexample:
  "fst (chat_handler (answering ''hello'') ''Gemini 1.5 Flash'' 0.7 (Some ''hi'')
          ([], read_only_world)) = Inr () \<and>
   store (snd (snd (chat_handler (answering ''hello'') ''Gemini 1.5 Flash'' 0.7 (Some ''hi'')
          ([], read_only_world)))) = Document (JList [first_turn]) \<and>
   store read_only_world = Document (JList [first_turn])"
  by (simp add: chat_handler_def MODELS_def get_gemini_response_def answering_def
      save_conversation_def save_conversation_try_def path_exists_def json_load_def
      list_append_def json_dump_def logging_error_def read_only_world_def)

text \<open>
  Claim C7, amended. Every cycle whose append succeeds (the file is absent or holds a
  list, and the write goes through) persists exactly one turn, and a failure of the
  gateway is persisted like an answer: the error string the gateway returned is the
  response field of the record, written by the same call of \<^verbatim>\<open>save_conversation\<close>. The
  record has the four fields and nothing else, so the file after a gateway error is
  the file after a cycle in which the service answered with that very string.
\<close>

theorem cycle_persists_response:
  assumes "prompt \<noteq> []" and "map_of MODELS selected_model = Some cfg"
    and "stored_list w = Some old" and "write_env w = WriteOk"
  shows "\<exists>response messages' w'.
     chat_handler svc selected_model temperature (Some prompt) (messages, w) =
       (Inr (), (messages', w')) \<and>
     fst (get_gemini_response svc prompt (model_name cfg) temperature w) = Inr response \<and>
     (\<forall>e. svc prompt (model_name cfg) temperature = Inl e \<longrightarrow>
        response = ''An error occurred with '' @ model_name cfg @ '': '' @ exn_str e) \<and>
     store w' =
       Document (JList (old @
         [JDict [(''timestamp'', JStr (strftime (now w))),
                 (''model'', JStr selected_model),
                 (''question'', JStr prompt),
                 (''response'', JStr response)]])) \<and>
     (\<forall>svc'. svc' prompt (model_name cfg) temperature = Inr response \<longrightarrow>
        store (snd (snd (chat_handler svc' selected_model temperature (Some prompt)
                 (messages, w)))) = store w')"
proof -
  have stored: "store (snd (save_conversation prompt r selected_model w1)) =
      Document (JList (old @ [new_conversation prompt r selected_model w]))"
    if "store w1 = store w" "write_env w1 = write_env w" "now w1 = now w" for r w1
  proof -
    from that assms(3,4) have old1: "stored_list w1 = Some old" and "write_env w1 = WriteOk"
      by (simp_all add: stored_list_def)
    then have ok: "append_succeeds prompt r selected_model w1"
      by (simp add: append_succeeds_iff)
    show ?thesis
      by (simp add: save_conversation_success [OF ok old1] logging_simps
          new_conversation_now [OF that(3)])
  qed
  have cycle: "store (snd (snd (chat_handler s selected_model temperature (Some prompt)
                 (messages, w)))) =
      Document (JList (old @ [new_conversation prompt r selected_model w]))"
    if gr: "fst (get_gemini_response s prompt (model_name cfg) temperature w) = Inr r" for s r
  proof -
    obtain w1 where g: "get_gemini_response s prompt (model_name cfg) temperature w = (Inr r, w1)"
      using gr by (cases "get_gemini_response s prompt (model_name cfg) temperature w") simp
    from gateway_world [of s prompt "model_name cfg" temperature w] g
    have "store w1 = store w" "write_env w1 = write_env w" "now w1 = now w" by simp_all
    from stored [OF this] show ?thesis
      by (simp add: chat_handler_cycle [OF assms(1,2) g])
  qed
  from gateway_result [of svc prompt "model_name cfg" temperature w]
  obtain response w1 where
    g: "get_gemini_response svc prompt (model_name cfg) temperature w = (Inr response, w1)"
    and r: "response =
       (case svc prompt (model_name cfg) temperature of
          Inr text \<Rightarrow> text
        | Inl e \<Rightarrow> ''An error occurred with '' @ model_name cfg @ '': '' @ exn_str e)"
    by blast
  let ?w' = "snd (save_conversation prompt response selected_model w1)"
  have 1: "chat_handler svc selected_model temperature (Some prompt) (messages, w) =
       (Inr (),
        (messages @ [\<lparr>role = user, content = prompt, model = None\<rparr>,
                     \<lparr>role = assistant, content = response, model = Some selected_model\<rparr>],
         ?w'))"
    by (rule chat_handler_cycle [OF assms(1,2) g])
  have 2: "fst (get_gemini_response svc prompt (model_name cfg) temperature w) = Inr response"
    using g by simp
  have 3: "\<forall>e. svc prompt (model_name cfg) temperature = Inl e \<longrightarrow>
        response = ''An error occurred with '' @ model_name cfg @ '': '' @ exn_str e"
    using r by simp
  have 4: "store ?w' =
       Document (JList (old @ [new_conversation prompt response selected_model w]))"
    using cycle [OF 2] 1 by simp
  have 5: "\<forall>svc'. svc' prompt (model_name cfg) temperature = Inr response \<longrightarrow>
        store (snd (snd (chat_handler svc' selected_model temperature (Some prompt)
                 (messages, w)))) = store ?w'"
  proof (intro allI impI)
    fix svc' :: service
    assume "svc' prompt (model_name cfg) temperature = Inr response"
    then have "fst (get_gemini_response svc' prompt (model_name cfg) temperature w) = Inr response"
      by (simp add: get_gemini_response_def)
    from cycle [OF this] 4
    show "store (snd (snd (chat_handler svc' selected_model temperature (Some prompt)
                 (messages, w)))) = store ?w'" by simp
  qed
  from 1 2 3 4 5 show ?thesis
    unfolding new_conversation_def by blast
qed

theorem cycle_persists_response_witness:
  "''test'' \<noteq> [] \<and>
   map_of MODELS ''Gemini 1.5 Pro'' = Some (the (map_of MODELS ''Gemini 1.5 Pro'')) \<and>
   stored_list empty_world = Some [] \<and> write_env empty_world = WriteOk \<and>
   store (snd (snd (chat_handler (failing invalid_credential) ''Gemini 1.5 Pro'' 0.7
                      (Some ''test'') ([], empty_world)))) =
     Document (JList
       [JDict [(''timestamp'', JStr ''2024-01-01 00:00:00''),
               (''model'', JStr ''Gemini 1.5 Pro''),
               (''question'', JStr ''test''),
               (''response'', JStr ''An error occurred with gemini-1.5-pro: 400 API key not valid. Please pass a valid API key.'')]]) \<and>
   store (snd (snd (chat_handler
       (answering ''An error occurred with gemini-1.5-pro: 400 API key not valid. Please pass a valid API key.'')
       ''Gemini 1.5 Pro'' 0.7 (Some ''test'') ([], empty_world)))) =
     store (snd (snd (chat_handler (failing invalid_credential) ''Gemini 1.5 Pro'' 0.7
                      (Some ''test'') ([], empty_world))))"
proof -
  let ?cfg = "the (map_of MODELS ''Gemini 1.5 Pro'')"
  let ?msg = "''An error occurred with gemini-1.5-pro: 400 API key not valid. Please pass a valid API key.''"
  have h1: "''test'' \<noteq> []" by simp
  have h2: "map_of MODELS ''Gemini 1.5 Pro'' = Some ?cfg" by (simp add: MODELS_def)
  have h3: "stored_list empty_world = Some []" by (simp add: stored_list_def empty_world_def)
  have h4: "write_env empty_world = WriteOk" by (simp add: empty_world_def)
  have m: "model_name ?cfg = ''gemini-1.5-pro''" by (simp add: MODELS_def)
  have ts: "strftime (now empty_world) = ''2024-01-01 00:00:00''"
    by (simp add: empty_world_def strftime_def new_year_def dec4_def dec2_def digit_def)
  have f: "failing invalid_credential ''test'' ''gemini-1.5-pro'' 0.7 = Inl invalid_credential"
    by (simp add: failing_def)
  have a: "answering ?msg ''test'' ''gemini-1.5-pro'' 0.7 = Inr ?msg"
    by (simp add: answering_def)
  from cycle_persists_response [OF h1 h2 h3 h4, of "failing invalid_credential" "0.7" "[]"]
  obtain response messages' w' where
    c: "chat_handler (failing invalid_credential) ''Gemini 1.5 Pro'' 0.7 (Some ''test'')
          ([], empty_world) = (Inr (), (messages', w'))"
    and e: "\<forall>e. failing invalid_credential ''test'' (model_name ?cfg) 0.7 = Inl e \<longrightarrow>
        response = ''An error occurred with '' @ model_name ?cfg @ '': '' @ exn_str e"
    and st: "store w' =
       Document (JList ([] @
         [JDict [(''timestamp'', JStr (strftime (now empty_world))),
                 (''model'', JStr ''Gemini 1.5 Pro''),
                 (''question'', JStr ''test''),
                 (''response'', JStr response)]]))"
    and same: "\<forall>svc'. svc' ''test'' (model_name ?cfg) 0.7 = Inr response \<longrightarrow>
        store (snd (snd (chat_handler svc' ''Gemini 1.5 Pro'' 0.7 (Some ''test'')
                 ([], empty_world)))) = store w'"
    by blast
  from e f m have r: "response = ?msg" by (simp add: invalid_credential_def)
  from same a m r have
    "store (snd (snd (chat_handler (answering ?msg) ''Gemini 1.5 Pro'' 0.7 (Some ''test'')
                 ([], empty_world)))) = store w'" by simp
  with c st r ts h1 h2 h3 h4 show ?thesis by simp
qed

section \<open>The statistics read has no handler\<close>

text \<open>
  Claim C8 does not hold of the script. With a \<^verbatim>\<open>conversations.json\<close> that exists and is
  empty, the statistics block of the sidebar raises the \<^verbatim>\<open>JSONDecodeError\<close> of
  \<^verbatim>\<open>json.load\<close>; nothing catches it, nothing is logged, the run ends before the chat
  input is reached and the page shows the exception. (On the append path the claim
  holds: by \<open>chat_handler_catches\<close> the chat handler raises nothing for a label of
  \<open>MODELS\<close>.)
\<close>

theorem statistics_read_escapes:
  "run_script (answering ''hello'') ''Gemini 1.5 Pro'' 0.7 (Some ''hi'') ([], corrupt_world) =
     (Inl (PyException ''JSONDecodeError'' ''Expecting value: line 1 column 1 (char 0)''),
      ([], corrupt_world))"
  by (simp add: run_script_def MODELS_def sidebar_statistics_def path_exists_def json_load_def
      corrupt_world_def empty_file_error_def)

end
